theory Spec2Isabelle
  imports Main
begin

section \<open>Data model of react-chess-game-features.tsx\<close>

text \<open>
  The component \<open>ChessGame\<close> keeps its state in React state variables; every handler is a
  closure over the values of one render. Each handler is modelled as a function of the state
  it reads, returning the state after its setters have run. Coordinates are JavaScript
  numbers holding integers, modelled as \<open>int\<close> (\<open>row + direction\<close> may be \<open>-1\<close> or \<open>8\<close>).
\<close>

datatype PieceType = Pawn | Rook | Knight | Bishop | Queen | King

datatype PieceColor = White | Black

record Piece =
  type :: PieceType
  color :: PieceColor

text \<open>
  \<open>type Board = (Piece | null)[][]\<close>: a cell is \<open>None\<close> for \<open>null\<close>. Rows are JavaScript
  arrays, so nothing fixes their number or their lengths.
\<close>

type_synonym Board = "Piece option list list"

type_synonym Square = "int \<times> int"

datatype GameMode = Multiplayer | Computer

text \<open>
  The exceptions of the handlers: TypeError for a property read or write on \<open>undefined\<close> or
  \<open>null\<close>, SyntaxError from \<open>JSON.parse\<close>.
\<close>

datatype error = TypeError | SyntaxError

record State =
  board :: Board
  selectedSquare :: "Square option"
  currentPlayer :: PieceColor
  gameMode :: "GameMode option"
  gameId :: "string option"
  messages :: "string list"
  newMessage :: string
  availableMoves :: "Square list"
  moveHistory :: "string list"

definition blackPiece :: "PieceType \<Rightarrow> Piece option" where
  "blackPiece t = Some \<lparr>type = t, color = Black\<rparr>"

definition whitePiece :: "PieceType \<Rightarrow> Piece option" where
  "whitePiece t = Some \<lparr>type = t, color = White\<rparr>"

definition initialBoard :: Board where
  "initialBoard =
    [ map blackPiece [Rook, Knight, Bishop, Queen, King, Bishop, Knight, Rook],
      replicate 8 (blackPiece Pawn),
      replicate 8 None, replicate 8 None, replicate 8 None, replicate 8 None,
      replicate 8 (whitePiece Pawn),
      map whitePiece [Rook, Knight, Bishop, Queen, King, Bishop, Knight, Rook] ]"

definition initialState :: State where
  "initialState =
    \<lparr>board = initialBoard, selectedSquare = None, currentPlayer = White, gameMode = None,
     gameId = None, messages = [], newMessage = [], availableMoves = [], moveHistory = []\<rparr>"

subsection \<open>Array reads\<close>

text \<open>\<open>xs[i]\<close>: \<open>undefined\<close> (here \<open>None\<close>) when \<open>i\<close> is not an index of the array.\<close>

definition idx :: "'a list \<Rightarrow> int \<Rightarrow> 'a option" where
  "idx xs i = (if 0 \<le> i \<and> i < int (length xs) then Some (xs ! nat i) else None)"

text \<open>
  \<open>row[c]\<close> read as a cell. Its readers only test the result for truthiness or read
  \<open>?.color\<close>, which treat \<open>null\<close> and \<open>undefined\<close> alike, so both are \<open>None\<close>.
\<close>

definition rowCell :: "Piece option list \<Rightarrow> int \<Rightarrow> Piece option" where
  "rowCell rw c = (case idx rw c of None \<Rightarrow> None | Some cell \<Rightarrow> cell)"

text \<open>\<open>board[r]?.[c]\<close>: the optional chain gives \<open>undefined\<close> when the row is missing.\<close>

definition cellOpt :: "Board \<Rightarrow> int \<Rightarrow> int \<Rightarrow> Piece option" where
  "cellOpt b r c = (case idx b r of None \<Rightarrow> None | Some rw \<Rightarrow> rowCell rw c)"

text \<open>\<open>board[r][c]\<close>: without the optional chain a missing row raises TypeError.\<close>

definition cellAt :: "Board \<Rightarrow> int \<Rightarrow> int \<Rightarrow> error + Piece option" where
  "cellAt b r c = (case idx b r of None \<Rightarrow> Inl TypeError | Some rw \<Rightarrow> Inr (rowCell rw c))"

text \<open>\<open>x?.color\<close> of a cell.\<close>

definition colorOf :: "Piece option \<Rightarrow> PieceColor option" where
  "colorOf cell = map_option color cell"

section \<open>Move generation\<close>

text \<open>
  \<open>isValidMove\<close> reads the board, the current player and the state variable
  \<open>availableMoves\<close> (the destinations computed for the selected square).
\<close>

fun isValidMove :: "State \<Rightarrow> Square \<Rightarrow> Square \<Rightarrow> error + bool" where
  "isValidMove s (fromRow, fromCol) (toRow, toCol) =
    (case cellAt (board s) fromRow fromCol of
       Inl e \<Rightarrow> Inl e
     | Inr None \<Rightarrow> Inr False
     | Inr (Some piece) \<Rightarrow>
         if color piece \<noteq> currentPlayer s then Inr False
         else (case cellAt (board s) toRow toCol of
                 Inl e \<Rightarrow> Inl e
               | Inr dest \<Rightarrow>
                   if colorOf dest = Some (currentPlayer s) then Inr False
                   else Inr (list_ex (\<lambda>(r, c). r = toRow \<and> c = toCol) (availableMoves s))))"

declare isValidMove.simps [simp del]

text \<open>The pawn branch of \<open>getAvailableMoves\<close>: four pushes, in the order of the source.\<close>

definition pawnMoves :: "Board \<Rightarrow> Piece \<Rightarrow> int \<Rightarrow> int \<Rightarrow> Square list" where
  "pawnMoves b piece row col =
    (let direction = (if color piece = White then - 1 else 1) in
       (if cellOpt b (row + direction) col = None then [(row + direction, col)] else [])
     @ (if (row = 1 \<and> color piece = Black) \<or> (row = 6 \<and> color piece = White)
        then (if cellOpt b (row + 2 * direction) col = None
              then [(row + 2 * direction, col)] else [])
        else [])
     @ (if colorOf (cellOpt b (row + direction) (col - 1)) \<noteq> Some (color piece)
        then [(row + direction, col - 1)] else [])
     @ (if colorOf (cellOpt b (row + direction) (col + 1)) \<noteq> Some (color piece)
        then [(row + direction, col + 1)] else []))"

text \<open>\<open>if (isValidMove(from, to)) moves.push(to)\<close>, with the exception propagated.\<close>

definition pushIfValid :: "State \<Rightarrow> Square \<Rightarrow> Square \<Rightarrow> Square list \<Rightarrow> error + Square list" where
  "pushIfValid s from to moves =
    (case isValidMove s from to of
       Inl e \<Rightarrow> Inl e
     | Inr ok \<Rightarrow> Inr (if ok then moves @ [to] else moves))"

text \<open>The rook branch: \<open>for (let i = 1; i < 8; i++)\<close> with its four tests per round.\<close>

function rookLoop :: "State \<Rightarrow> int \<Rightarrow> int \<Rightarrow> int \<Rightarrow> Square list \<Rightarrow> error + Square list" where
  "rookLoop s row col i moves =
    (if i < 8 then
       (case pushIfValid s (row, col) (row + i, col) moves of
          Inl e \<Rightarrow> Inl e
        | Inr m1 \<Rightarrow>
       (case pushIfValid s (row, col) (row - i, col) m1 of
          Inl e \<Rightarrow> Inl e
        | Inr m2 \<Rightarrow>
       (case pushIfValid s (row, col) (row, col + i) m2 of
          Inl e \<Rightarrow> Inl e
        | Inr m3 \<Rightarrow>
       (case pushIfValid s (row, col) (row, col - i) m3 of
          Inl e \<Rightarrow> Inl e
        | Inr m4 \<Rightarrow> rookLoop s row col (i + 1) m4))))
     else Inr moves)"
  by pat_completeness auto
termination
  by (relation "measure (\<lambda>(s, row, col, i, moves). nat (8 - i))") auto

declare rookLoop.simps [simp del]

definition onBoard :: "Square \<Rightarrow> bool" where
  "onBoard m = (case m of (r, c) \<Rightarrow> r \<ge> 0 \<and> r < 8 \<and> c \<ge> 0 \<and> c < 8)"

definition getAvailableMoves :: "State \<Rightarrow> int \<Rightarrow> int \<Rightarrow> error + Square list" where
  "getAvailableMoves s row col =
    (case cellAt (board s) row col of
       Inl e \<Rightarrow> Inl e
     | Inr None \<Rightarrow> Inr []
     | Inr (Some piece) \<Rightarrow>
         (case (case type piece of
                  Pawn \<Rightarrow> Inr (pawnMoves (board s) piece row col)
                | Rook \<Rightarrow> rookLoop s row col 1 []
                | _ \<Rightarrow> Inr []) of
            Inl e \<Rightarrow> Inl e
          | Inr moves \<Rightarrow> Inr (filter onBoard moves)))"

section \<open>Applying a move\<close>

text \<open>
  \<open>xs[i] = v\<close> on an array. Inside the array the element is replaced. Past the end the array
  grows, the skipped indices being holes that read as \<open>undefined\<close>, which every reader of this
  program treats like \<open>null\<close> (\<open>None\<close>). A negative index names a property that is not an
  element, so the elements stay as they are; a later read of that property is not followed
  (no generated destination and no click has a negative column).
\<close>

definition setIdx :: "'a option list \<Rightarrow> int \<Rightarrow> 'a option \<Rightarrow> 'a option list" where
  "setIdx xs i v =
    (if i < 0 then xs
     else if i < int (length xs) then xs[nat i := v]
     else xs @ replicate (nat i - length xs) None @ [v])"

text \<open>
  The three statements shared by \<open>handleSquareClick\<close> and \<open>makeComputerMove\<close>:
  \<open>newBoard = board.map(row => [...row])\<close>, \<open>newBoard[toRow][toCol] = newBoard[fromRow][fromCol]\<close>
  and \<open>newBoard[fromRow][fromCol] = null\<close>. On values the copy is the identity; the store
  model below follows the arrays themselves.
\<close>

fun movePiece :: "Board \<Rightarrow> Square \<Rightarrow> Square \<Rightarrow> error + Board" where
  "movePiece b (fromRow, fromCol) (toRow, toCol) =
    (let newBoard = map (\<lambda>row. row) b in
     case idx newBoard toRow of
       None \<Rightarrow> Inl TypeError
     | Some target \<Rightarrow>
         (case cellAt newBoard fromRow fromCol of
            Inl e \<Rightarrow> Inl e
          | Inr v \<Rightarrow>
              (let moved = newBoard[nat toRow := setIdx target toCol v] in
               case idx moved fromRow of
                 None \<Rightarrow> Inl TypeError
               | Some source \<Rightarrow> Inr (moved[nat fromRow := setIdx source fromCol None]))))"

declare movePiece.simps [simp del]

text \<open>
  Numbers in a template literal: the decimal digits, with a sign when negative. This is the
  text of an integer below \<open>10^21\<close> in size, as every coordinate of a move is; larger
  numbers, printed in exponent form, are not followed.
\<close>

fun showNat :: "nat \<Rightarrow> string" where
  "showNat n =
    (if n < 10 then [char_of (48 + n)]
     else showNat (n div 10) @ [char_of (48 + n mod 10)])"

declare showNat.simps [simp del]

definition showInt :: "int \<Rightarrow> string" where
  "showInt i = (if i < 0 then CHR ''-'' # showNat (nat (- i)) else showNat (nat i))"

text \<open>The history entry \<open>`${fromRow},${fromCol} to ${toRow},${toCol}`\<close>.\<close>

fun moveText :: "Square \<Rightarrow> Square \<Rightarrow> string" where
  "moveText (fromRow, fromCol) (toRow, toCol) =
    showInt fromRow @ '','' @ showInt fromCol @ '' to '' @ showInt toRow @ '','' @ showInt toCol"

definition opponent :: "PieceColor \<Rightarrow> PieceColor" where
  "opponent p = (if p = White then Black else White)"

text \<open>
  \<open>handleSquareClick\<close>. The second component of the result tells whether
  \<open>setTimeout(makeComputerMove, 500)\<close> was called.
\<close>

definition handleSquareClick :: "State \<Rightarrow> int \<Rightarrow> int \<Rightarrow> error + State \<times> bool" where
  "handleSquareClick s row col =
    (case selectedSquare s of
       Some sel \<Rightarrow>
         (case isValidMove s sel (row, col) of
            Inl e \<Rightarrow> Inl e
          | Inr ok \<Rightarrow>
              if ok then
                (case movePiece (board s) sel (row, col) of
                   Inl e \<Rightarrow> Inl e
                 | Inr newBoard \<Rightarrow>
                     Inr (s\<lparr>board := newBoard,
                            currentPlayer := opponent (currentPlayer s),
                            moveHistory := moveHistory s @ [moveText sel (row, col)],
                            selectedSquare := None\<rparr>,
                          gameMode s = Some Computer \<and> currentPlayer s = White))
              else Inr (s\<lparr>selectedSquare := None\<rparr>, False))
     | None \<Rightarrow>
         (case cellAt (board s) row col of
            Inl e \<Rightarrow> Inl e
          | Inr cell \<Rightarrow>
              if cell \<noteq> None \<and> colorOf cell = Some (currentPlayer s)
              then Inr (s\<lparr>selectedSquare := Some (row, col)\<rparr>, False)
              else Inr (s, False)))"

text \<open>The effect on \<open>selectedSquare\<close>: it recomputes the highlighted destinations.\<close>

definition selectionEffect :: "State \<Rightarrow> error + State" where
  "selectionEffect s =
    (case selectedSquare s of
       Some (row, col) \<Rightarrow>
         (case getAvailableMoves s row col of
            Inl e \<Rightarrow> Inl e
          | Inr ms \<Rightarrow> Inr (s\<lparr>availableMoves := ms\<rparr>))
     | None \<Rightarrow> Inr (s\<lparr>availableMoves := []\<rparr>))"

text \<open>
  One click as React runs it in a game of two players: the handler, then, when
  \<open>selectedSquare\<close> has changed, the effect in the state the handler has set.
\<close>

definition click :: "State \<Rightarrow> Square \<Rightarrow> error + State" where
  "click s square =
    (case handleSquareClick s (fst square) (snd square) of
       Inl e \<Rightarrow> Inl e
     | Inr (s', timer) \<Rightarrow>
         if selectedSquare s' \<noteq> selectedSquare s then selectionEffect s' else Inr s')"

fun clicks :: "State \<Rightarrow> Square list \<Rightarrow> error + State" where
  "clicks s [] = Inr s"
| "clicks s (square # squares) =
    (case click s square of Inl e \<Rightarrow> Inl e | Inr s' \<Rightarrow> clicks s' squares)"

section \<open>The computer's move\<close>

type_synonym FullMove = "int \<times> int \<times> int \<times> int"

text \<open>The inner loop \<open>for (let j = 0; j < 8; j++)\<close> of \<open>makeComputerMove\<close>.\<close>

function colLoop :: "State \<Rightarrow> int \<Rightarrow> int \<Rightarrow> FullMove list \<Rightarrow> error + FullMove list" where
  "colLoop s i j possibleMoves =
    (if j < 8 then
       (case cellAt (board s) i j of
          Inl e \<Rightarrow> Inl e
        | Inr cell \<Rightarrow>
            if colorOf cell = Some Black then
              (case getAvailableMoves s i j of
                 Inl e \<Rightarrow> Inl e
               | Inr moves \<Rightarrow>
                   colLoop s i (j + 1) (possibleMoves @ map (\<lambda>(r, c). (i, j, r, c)) moves))
            else colLoop s i (j + 1) possibleMoves)
     else Inr possibleMoves)"
  by pat_completeness auto
termination
  by (relation "measure (\<lambda>(s, i, j, pm). nat (8 - j))") auto

declare colLoop.simps [simp del]

text \<open>The outer loop \<open>for (let i = 0; i < 8; i++)\<close>.\<close>

function rowLoop :: "State \<Rightarrow> int \<Rightarrow> FullMove list \<Rightarrow> error + FullMove list" where
  "rowLoop s i possibleMoves =
    (if i < 8 then
       (case colLoop s i 0 possibleMoves of
          Inl e \<Rightarrow> Inl e
        | Inr pm \<Rightarrow> rowLoop s (i + 1) pm)
     else Inr possibleMoves)"
  by pat_completeness auto
termination
  by (relation "measure (\<lambda>(s, i, pm). nat (8 - i))") auto

declare rowLoop.simps [simp del]

text \<open>
  \<open>Math.floor(Math.random() * possibleMoves.length)\<close> is computed by the platform, from
  its random source and a product of floating-point numbers. The handler takes it as the
  parameter \<open>floorRandom\<close>: applied to the length, it gives the value of that expression in
  the call.
\<close>

type_synonym FloorRandom = "nat \<Rightarrow> int"

text \<open>
  \<open>makeComputerMove\<close>. Destructuring \<open>possibleMoves[k]\<close> raises TypeError when the index is
  not one of the array. The timer set by \<open>handleSquareClick\<close> calls the function of the render
  that handled the click; like every handler it is modelled on the state it reads.
\<close>

definition makeComputerMove :: "State \<Rightarrow> FloorRandom \<Rightarrow> error + State" where
  "makeComputerMove s floorRandom =
    (case rowLoop s 0 [] of
       Inl e \<Rightarrow> Inl e
     | Inr possibleMoves \<Rightarrow>
         if length possibleMoves > 0 then
           (case idx possibleMoves (floorRandom (length possibleMoves)) of
              None \<Rightarrow> Inl TypeError
            | Some (fromRow, fromCol, toRow, toCol) \<Rightarrow>
                (case movePiece (board s) (fromRow, fromCol) (toRow, toCol) of
                   Inl e \<Rightarrow> Inl e
                 | Inr newBoard \<Rightarrow>
                     Inr (s\<lparr>board := newBoard,
                            currentPlayer := White,
                            moveHistory :=
                              moveHistory s @ [moveText (fromRow, fromCol) (toRow, toCol)]\<rparr>)))
         else Inr s)"

section \<open>Saving and loading\<close>

text \<open>
  \<open>saveGame\<close> writes \<open>JSON.stringify({board, currentPlayer, moveHistory})\<close> to the item
  \<open>savedChessGame\<close> of \<open>localStorage\<close>; \<open>loadGame\<close> reads the item back through
  \<open>JSON.parse\<close>. Printing and parsing belong to the platform: printing a JSON document and
  parsing the text gives the document back. An item is therefore modelled by what
  \<open>JSON.parse\<close> makes of its text.
\<close>

datatype json =
  JNull | JBool bool | JNumber int | JString string
  | JArray "json list" | JObject "(string \<times> json) list"

datatype Item = EmptyText | Malformed | Document json

type_synonym Storage = "string \<rightharpoonup> Item"

fun typeName :: "PieceType \<Rightarrow> string" where
  "typeName Pawn = ''pawn''"
| "typeName Rook = ''rook''"
| "typeName Knight = ''knight''"
| "typeName Bishop = ''bishop''"
| "typeName Queen = ''queen''"
| "typeName King = ''king''"

fun colorName :: "PieceColor \<Rightarrow> string" where
  "colorName White = ''white''"
| "colorName Black = ''black''"

definition pieceJson :: "Piece \<Rightarrow> json" where
  "pieceJson p =
    JObject [(''type'', JString (typeName (type p))), (''color'', JString (colorName (color p)))]"

fun cellJson :: "Piece option \<Rightarrow> json" where
  "cellJson None = JNull"
| "cellJson (Some p) = pieceJson p"

definition boardJson :: "Board \<Rightarrow> json" where
  "boardJson b = JArray (map (\<lambda>row. JArray (map cellJson row)) b)"

definition gameJson :: "State \<Rightarrow> json" where
  "gameJson s =
    JObject [(''board'', boardJson (board s)),
             (''currentPlayer'', JString (colorName (currentPlayer s))),
             (''moveHistory'', JArray (map JString (moveHistory s)))]"

definition saveGame :: "State \<Rightarrow> Storage \<Rightarrow> Storage" where
  "saveGame s localStorage = localStorage(''savedChessGame'' \<mapsto> Document (gameJson s))"

text \<open>
  \<open>loadGame\<close> hands the parsed values to the setters unchecked. The state variables are
  typed, so the model reads each value at its declared type; a document whose values are not
  of these types puts the program outside its types, where the model does not follow it.
\<close>

definition getProp :: "json \<Rightarrow> string \<Rightarrow> json option" where
  "getProp j name = (case j of JObject members \<Rightarrow> map_of members name | _ \<Rightarrow> None)"

definition asType :: "json \<Rightarrow> PieceType option" where
  "asType j =
    (case j of
       JString t \<Rightarrow>
         (if t = ''pawn'' then Some Pawn else if t = ''rook'' then Some Rook
          else if t = ''knight'' then Some Knight else if t = ''bishop'' then Some Bishop
          else if t = ''queen'' then Some Queen else if t = ''king'' then Some King
          else None)
     | _ \<Rightarrow> None)"

definition asColor :: "json \<Rightarrow> PieceColor option" where
  "asColor j =
    (case j of
       JString c \<Rightarrow>
         (if c = ''white'' then Some White else if c = ''black'' then Some Black else None)
     | _ \<Rightarrow> None)"

definition asCell :: "json \<Rightarrow> Piece option option" where
  "asCell j =
    (if j = JNull then Some None
     else (case getProp j ''type'' of
             None \<Rightarrow> None
           | Some tj \<Rightarrow>
               (case asType tj of
                  None \<Rightarrow> None
                | Some t \<Rightarrow>
                    (case getProp j ''color'' of
                       None \<Rightarrow> None
                     | Some cj \<Rightarrow>
                         (case asColor cj of
                            None \<Rightarrow> None
                          | Some c \<Rightarrow> Some (Some \<lparr>type = t, color = c\<rparr>))))))"

fun allSome :: "'a option list \<Rightarrow> 'a list option" where
  "allSome [] = Some []"
| "allSome (x # xs) =
    (case x of
       None \<Rightarrow> None
     | Some y \<Rightarrow> (case allSome xs of None \<Rightarrow> None | Some ys \<Rightarrow> Some (y # ys)))"

definition asRow :: "json \<Rightarrow> Piece option list option" where
  "asRow j = (case j of JArray cells \<Rightarrow> allSome (map asCell cells) | _ \<Rightarrow> None)"

definition asBoard :: "json \<Rightarrow> Board option" where
  "asBoard j = (case j of JArray rows \<Rightarrow> allSome (map asRow rows) | _ \<Rightarrow> None)"

definition asText :: "json \<Rightarrow> string option" where
  "asText j = (case j of JString t \<Rightarrow> Some t | _ \<Rightarrow> None)"

definition asHistory :: "json \<Rightarrow> string list option" where
  "asHistory j = (case j of JArray entries \<Rightarrow> allSome (map asText entries) | _ \<Rightarrow> None)"

datatype LoadResult = Raises error | Loads State | OutsideTypes

text \<open>
  \<open>loadGame\<close>: \<open>if (savedGame)\<close> skips a missing item and the empty string; destructuring
  \<open>null\<close> raises TypeError; otherwise the three setters run on the three properties.
\<close>

definition loadGame :: "State \<Rightarrow> Storage \<Rightarrow> LoadResult" where
  "loadGame s localStorage =
    (case localStorage ''savedChessGame'' of
       None \<Rightarrow> Loads s
     | Some EmptyText \<Rightarrow> Loads s
     | Some Malformed \<Rightarrow> Raises SyntaxError
     | Some (Document doc) \<Rightarrow>
         if doc = JNull then Raises TypeError
         else (case Option.bind (getProp doc ''board'') asBoard of
                 None \<Rightarrow> OutsideTypes
               | Some b \<Rightarrow>
                   (case Option.bind (getProp doc ''currentPlayer'') asColor of
                      None \<Rightarrow> OutsideTypes
                    | Some p \<Rightarrow>
                        (case Option.bind (getProp doc ''moveHistory'') asHistory of
                           None \<Rightarrow> OutsideTypes
                         | Some h \<Rightarrow>
                             Loads (s\<lparr>board := b, currentPlayer := p, moveHistory := h\<rparr>)))))"

text \<open>
  Modelled from the spec: the rule of section 6 that a loaded board holds exactly one king per
  color. The source has no such test; the count serves to state the rule.
\<close>

definition kingCount :: "Board \<Rightarrow> PieceColor \<Rightarrow> nat" where
  "kingCount b c = length (filter (\<lambda>cell. cell = Some \<lparr>type = King, color = c\<rparr>) (concat b))"

definition oneKingEach :: "Board \<Rightarrow> bool" where
  "oneKingEach b = (kingCount b White = 1 \<and> kingCount b Black = 1)"

section \<open>The board as arrays in a store\<close>

text \<open>
  The value model cannot tell a copy from an alias, so the frame property of the handlers is
  stated on a second model in which every row array has an address. The program assigns only
  to elements of rows (\<open>newBoard[r][c] = ...\<close>), never to an element of an outer array nor to
  a property of a piece; pieces therefore stay values, and the state variable \<open>board\<close> holds
  the addresses of its rows. An address is an index into the list of the arrays allocated so
  far. In \<open>initialBoard\<close> the four empty ranks are one array:
  \<open>...Array(4).fill(Array(8).fill(null))\<close>.
\<close>

type_synonym ref = nat

type_synonym Store = "Piece option list list"

text \<open>\<open>vars\<close> holds the other state variables; its field \<open>board\<close> is not read.\<close>

record RefState =
  store :: Store
  boardRefs :: "ref list"
  vars :: State

definition rowsOf :: "Store \<Rightarrow> ref list \<Rightarrow> Board" where
  "rowsOf st refs = map (\<lambda>a. st ! a) refs"

definition allocated :: "Store \<Rightarrow> ref list \<Rightarrow> bool" where
  "allocated st refs = list_all (\<lambda>a. a < length st) refs"

text \<open>What a closure over the state reads through the reference.\<close>

definition valueOf :: "RefState \<Rightarrow> State" where
  "valueOf rs = (vars rs)\<lparr>board := rowsOf (store rs) (boardRefs rs)\<rparr>"

definition initialStore :: Store where
  "initialStore =
    [ map blackPiece [Rook, Knight, Bishop, Queen, King, Bishop, Knight, Rook],
      replicate 8 (blackPiece Pawn),
      replicate 8 None,
      replicate 8 (whitePiece Pawn),
      map whitePiece [Rook, Knight, Bishop, Queen, King, Bishop, Knight, Rook] ]"

definition initialRefs :: "ref list" where
  "initialRefs = [0, 1, 2, 2, 2, 2, 3, 4]"

definition initialRefState :: RefState where
  "initialRefState = \<lparr>store = initialStore, boardRefs = initialRefs, vars = initialState\<rparr>"

text \<open>\<open>board.map(row => [...row])\<close>: one fresh array per row, in order.\<close>

fun copyRows :: "Store \<Rightarrow> ref list \<Rightarrow> Store \<times> ref list" where
  "copyRows st [] = (st, [])"
| "copyRows st (a # as) =
    (case copyRows (st @ [st ! a]) as of (st', bs) \<Rightarrow> (st', length st # bs))"

text \<open>The copy and the two assignments, on the store.\<close>

fun movePieceRefs :: "Store \<Rightarrow> ref list \<Rightarrow> Square \<Rightarrow> Square \<Rightarrow> error + Store \<times> ref list" where
  "movePieceRefs st b (fromRow, fromCol) (toRow, toCol) =
    (case copyRows st b of (st1, newBoard) \<Rightarrow>
       (case idx newBoard toRow of
          None \<Rightarrow> Inl TypeError
        | Some target \<Rightarrow>
            (case idx newBoard fromRow of
               None \<Rightarrow> Inl TypeError
             | Some source \<Rightarrow>
                 (let v = rowCell (st1 ! source) fromCol;
                      st2 = st1[target := setIdx (st1 ! target) toCol v];
                      st3 = st2[source := setIdx (st2 ! source) fromCol None]
                  in Inr (st3, newBoard)))))"

declare movePieceRefs.simps [simp del]

definition handleSquareClickRefs :: "RefState \<Rightarrow> int \<Rightarrow> int \<Rightarrow> error + RefState \<times> bool" where
  "handleSquareClickRefs rs row col =
    (let s = valueOf rs in
     case selectedSquare s of
       Some sel \<Rightarrow>
         (case isValidMove s sel (row, col) of
            Inl e \<Rightarrow> Inl e
          | Inr ok \<Rightarrow>
              if ok then
                (case movePieceRefs (store rs) (boardRefs rs) sel (row, col) of
                   Inl e \<Rightarrow> Inl e
                 | Inr (st', newBoard) \<Rightarrow>
                     Inr (\<lparr>store = st', boardRefs = newBoard,
                           vars = (vars rs)
                             \<lparr>currentPlayer := opponent (currentPlayer s),
                              moveHistory := moveHistory s @ [moveText sel (row, col)],
                              selectedSquare := None\<rparr>\<rparr>,
                          gameMode s = Some Computer \<and> currentPlayer s = White))
              else Inr (rs\<lparr>vars := (vars rs)\<lparr>selectedSquare := None\<rparr>\<rparr>, False))
     | None \<Rightarrow>
         (case cellAt (board s) row col of
            Inl e \<Rightarrow> Inl e
          | Inr cell \<Rightarrow>
              if cell \<noteq> None \<and> colorOf cell = Some (currentPlayer s)
              then Inr (rs\<lparr>vars := (vars rs)\<lparr>selectedSquare := Some (row, col)\<rparr>\<rparr>, False)
              else Inr (rs, False)))"

definition makeComputerMoveRefs :: "RefState \<Rightarrow> FloorRandom \<Rightarrow> error + RefState" where
  "makeComputerMoveRefs rs floorRandom =
    (let s = valueOf rs in
     case rowLoop s 0 [] of
       Inl e \<Rightarrow> Inl e
     | Inr possibleMoves \<Rightarrow>
         if length possibleMoves > 0 then
           (case idx possibleMoves (floorRandom (length possibleMoves)) of
              None \<Rightarrow> Inl TypeError
            | Some (fromRow, fromCol, toRow, toCol) \<Rightarrow>
                (case movePieceRefs (store rs) (boardRefs rs) (fromRow, fromCol) (toRow, toCol) of
                   Inl e \<Rightarrow> Inl e
                 | Inr (st', newBoard) \<Rightarrow>
                     Inr \<lparr>store = st', boardRefs = newBoard,
                          vars = (vars rs)
                            \<lparr>currentPlayer := White,
                             moveHistory :=
                               moveHistory s @ [moveText (fromRow, fromCol) (toRow, toCol)]\<rparr>\<rparr>))
         else Inr rs)"

section \<open>Attacked squares\<close>

text \<open>
  Modelled from the spec: \<open>isSquareAttacked(square, byColor)\<close>, which the source does not
  have. Section 4.1 of the specification computes it "by checking, for every opponent piece,
  whether a pseudo-legal move (ignoring check safety) could land on \<open>square\<close>"; the moves of a
  piece are those that \<open>getAvailableMoves\<close> generates for its square.
\<close>

definition allSquares :: "Square list" where
  "allSquares = concat (map (\<lambda>i. map (\<lambda>j. (i, j)) [0..7]) [0..7])"

definition isSquareAttacked :: "State \<Rightarrow> Square \<Rightarrow> PieceColor \<Rightarrow> bool" where
  "isSquareAttacked s square byColor =
    list_ex (\<lambda>(i, j). colorOf (cellOpt (board s) i j) = Some byColor
                      \<and> (case getAvailableMoves s i j of
                           Inl e \<Rightarrow> False
                         | Inr ms \<Rightarrow> square \<in> set ms))
            allSquares"

section \<open>Example positions\<close>

text \<open>
  The position after the moves (6,0) to (4,0), (1,4) to (3,4), (4,0) to (3,0), (3,4) to
  (4,4), (3,0) to (2,0) and (4,4) to (5,4): a black pawn stands directly before the white
  pawn on (6,4), which has not moved.
\<close>

definition blockedBoard :: Board where
  "blockedBoard =
    [ map blackPiece [Rook, Knight, Bishop, Queen, King, Bishop, Knight, Rook],
      (replicate 8 (blackPiece Pawn))[4 := None],
      (replicate 8 None)[0 := whitePiece Pawn],
      replicate 8 None,
      replicate 8 None,
      (replicate 8 None)[4 := blackPiece Pawn],
      (replicate 8 (whitePiece Pawn))[0 := None],
      map whitePiece [Rook, Knight, Bishop, Queen, King, Bishop, Knight, Rook] ]"

definition blockedClicks :: "Square list" where
  "blockedClicks =
    [(6, 0), (4, 0), (1, 4), (3, 4), (4, 0), (3, 0), (3, 4), (4, 4), (3, 0), (2, 0), (4, 4), (5, 4)]"

text \<open>
  The position after the moves (6,0) to (4,0) and (1,7) to (3,7): the white rook on (7,0)
  has two empty squares before it.
\<close>

definition openFileBoard :: Board where
  "openFileBoard =
    [ map blackPiece [Rook, Knight, Bishop, Queen, King, Bishop, Knight, Rook],
      (replicate 8 (blackPiece Pawn))[7 := None],
      replicate 8 None,
      (replicate 8 None)[7 := blackPiece Pawn],
      (replicate 8 None)[0 := whitePiece Pawn],
      replicate 8 None,
      (replicate 8 (whitePiece Pawn))[0 := None],
      map whitePiece [Rook, Knight, Bishop, Queen, King, Bishop, Knight, Rook] ]"

definition openFileClicks :: "Square list" where
  "openFileClicks = [(6, 0), (4, 0), (1, 7), (3, 7)]"

text \<open>
  White to move with the white king on (4,1) attacked by the black pawn on (3,0); a white
  pawn stands on (6,7).
\<close>

definition checkBoard :: Board where
  "checkBoard =
    [ (replicate 8 None)[4 := blackPiece King],
      replicate 8 None,
      replicate 8 None,
      (replicate 8 None)[0 := blackPiece Pawn],
      (replicate 8 None)[1 := whitePiece King],
      replicate 8 None,
      (replicate 8 None)[7 := whitePiece Pawn],
      replicate 8 None ]"

text \<open>Two kings and nothing else: no move is generated for either side.\<close>

definition kingsBoard :: Board where
  "kingsBoard =
    [ (replicate 8 None)[4 := blackPiece King],
      replicate 8 None, replicate 8 None, replicate 8 None,
      replicate 8 None, replicate 8 None, replicate 8 None,
      (replicate 8 None)[4 := whitePiece King] ]"

text \<open>The start position with the white king replaced by a second white queen.\<close>

definition noWhiteKingBoard :: Board where
  "noWhiteKingBoard =
    initialBoard[7 := map whitePiece [Rook, Knight, Bishop, Queen, Queen, Bishop, Knight, Rook]]"

text \<open>The start position with the pawn on (6,4) selected and its destinations highlighted.\<close>

definition clickState :: State where
  "clickState = initialState\<lparr>selectedSquare := Some (6, 4),
                              availableMoves := [(5, 4), (4, 4), (5, 3), (5, 5)]\<rparr>"

text \<open>White to move on \<open>checkBoard\<close>, the pawn on (6,7) selected.\<close>

definition checkState :: State where
  "checkState = initialState\<lparr>board := checkBoard, selectedSquare := Some (6, 7),
                              availableMoves := [(5, 7), (4, 7), (5, 6)]\<rparr>"

text \<open>\<open>checkBoard\<close> after the pawn has stepped from (6,7) to (5,7).\<close>

definition checkBoardAfter :: Board where
  "checkBoardAfter =
    [ (replicate 8 None)[4 := blackPiece King],
      replicate 8 None,
      replicate 8 None,
      (replicate 8 None)[0 := blackPiece Pawn],
      (replicate 8 None)[1 := whitePiece King],
      (replicate 8 None)[7 := whitePiece Pawn],
      replicate 8 None,
      replicate 8 None ]"

definition checkStateAfter :: State where
  "checkStateAfter = checkState\<lparr>board := checkBoardAfter, currentPlayer := Black,
                                 moveHistory := [''6,7 to 5,7''], selectedSquare := None\<rparr>"


definition middleIndex :: FloorRandom where
  "middleIndex n = int (n div 2)"


text \<open>The start position in the store, with the pawn on (6,4) selected.\<close>

definition clickRefState :: RefState where
  "clickRefState = initialRefState\<lparr>vars := clickState\<rparr>"

section \<open>Destinations stay on the board\<close>

text \<open>
  Claim C9. Whenever \<open>getAvailableMoves\<close> returns a list, every destination in it has its row
  and its column in the range 0 to 7: the final \<open>filter\<close> drops every other pair.
\<close>

theorem getAvailableMoves_on_board:
  assumes "getAvailableMoves s row col = Inr ms" and "(r, c) \<in> set ms"
  shows "0 \<le> r \<and> r \<le> 7 \<and> 0 \<le> c \<and> c \<le> 7"
proof -
  from assms(1) obtain raw where "ms = filter onBoard raw \<or> ms = []"
    by (auto simp: getAvailableMoves_def split: sum.splits option.splits)
  with assms(2) have "onBoard (r, c)" by auto
  then show ?thesis by (simp add: onBoard_def)
qed

theorem getAvailableMoves_on_board_witness:
  "getAvailableMoves initialState 6 0 = Inr [(5, 0), (4, 0), (5, 1)]
   \<and> (5, 1) \<in> set [(5, 0), (4, 0), (5, 1 :: int)]
   \<and> (0 :: int) \<le> 5 \<and> (5 :: int) \<le> 7 \<and> (0 :: int) \<le> 1 \<and> (1 :: int) \<le> 7"
proof -
  have gen: "getAvailableMoves initialState 6 0 = Inr [(5, 0), (4, 0), (5, 1)]"
    by code_simp
  have mem: "(5, 1) \<in> set [(5, 0), (4, 0), (5, 1 :: int)]"
    by simp
  show ?thesis
    using gen getAvailableMoves_on_board[OF gen mem] by simp
qed

section \<open>What the rook loop returns\<close>

lemma cellAt_Inr_row: "cellAt b r c = Inr cell \<Longrightarrow> 0 \<le> r \<and> r < int (length b)"
  by (auto simp: cellAt_def idx_def split: if_splits option.splits)

lemma cellAt_cellOpt: "cellAt b r c = Inr cell \<Longrightarrow> cellOpt b r c = cell"
  by (auto simp: cellAt_def cellOpt_def split: option.splits)

lemma isValidMove_other:
  assumes "cellAt (board s) row col = Inr (Some p)" and "color p \<noteq> currentPlayer s"
  shows "isValidMove s (row, col) to = Inr False"
  using assms by (cases to) (simp add: isValidMove.simps)

lemma rookLoop_other:
  assumes "cellAt (board s) row col = Inr (Some p)" and "color p \<noteq> currentPlayer s"
  shows "rookLoop s row col i moves = Inr moves"
  using assms
proof (induction s row col i moves rule: rookLoop.induct)
  case (1 s row col i moves)
  have push: "\<And>to ms. pushIfValid s (row, col) to ms = Inr ms"
    using 1(2,3) by (simp add: pushIfValid_def isValidMove_other)
  show ?case
  proof (cases "i < 8")
    case True
    with 1 push show ?thesis
      by (subst rookLoop.simps) simp
  next
    case False
    then show ?thesis by (subst rookLoop.simps) simp
  qed
qed

lemma isValidMove_own_row:
  assumes "cellAt (board s) row col = Inr (Some p)" and "color p = currentPlayer s"
  shows "isValidMove s (row, col) (tr, tc) =
           (if 0 \<le> tr \<and> tr < int (length (board s))
            then Inr (colorOf (cellOpt (board s) tr tc) \<noteq> Some (currentPlayer s)
                      \<and> list_ex (\<lambda>(r, c). r = tr \<and> c = tc) (availableMoves s))
            else Inl TypeError)"
  using assms
  by (auto simp: isValidMove.simps cellAt_def cellOpt_def idx_def split: option.splits)

lemma pushIfValid_own:
  assumes "cellAt (board s) row col = Inr (Some p)" and "color p = currentPlayer s"
  shows "\<not> (0 \<le> tr \<and> tr < int (length (board s))) \<Longrightarrow>
           pushIfValid s (row, col) (tr, tc) ms = Inl TypeError"
    and "0 \<le> tr \<and> tr < int (length (board s)) \<Longrightarrow>
           \<exists>ms'. pushIfValid s (row, col) (tr, tc) ms = Inr ms'"
  using assms by (simp_all add: pushIfValid_def isValidMove_own_row)

lemma rookLoop_own:
  assumes "cellAt (board s) row col = Inr (Some p)" and "color p = currentPlayer s"
    and "length (board s) = 8" and "1 \<le> i" and "i < 8"
  shows "rookLoop s row col i moves = Inl TypeError"
  using assms
proof (induction s row col i moves rule: rookLoop.induct)
  case (1 s row col i moves)
  note own = 1(2,3)
  have row: "0 \<le> row \<and> row < 8"
    using cellAt_Inr_row[OF 1(2)] 1(4) by simp
  show ?case
  proof (cases "row + i < 8")
    case False
    then have "pushIfValid s (row, col) (row + i, col) moves = Inl TypeError"
      using pushIfValid_own(1)[OF own] 1(4) by simp
    with 1(6) show ?thesis by (subst rookLoop.simps) simp
  next
    case down: True
    then obtain m1 where m1: "pushIfValid s (row, col) (row + i, col) moves = Inr m1"
      using pushIfValid_own(2)[OF own, of "row + i" col moves] 1(4,5) row by auto
    show ?thesis
    proof (cases "0 \<le> row - i")
      case False
      then have "pushIfValid s (row, col) (row - i, col) m1 = Inl TypeError"
        using pushIfValid_own(1)[OF own] by simp
      with 1(6) m1 show ?thesis by (subst rookLoop.simps) simp
    next
      case up: True
      then obtain m2 where m2: "pushIfValid s (row, col) (row - i, col) m1 = Inr m2"
        using pushIfValid_own(2)[OF own, of "row - i" col m1] 1(4,5) row by auto
      obtain m3 where m3: "pushIfValid s (row, col) (row, col + i) m2 = Inr m3"
        using pushIfValid_own(2)[OF own, of row "col + i" m2] 1(4) row by auto
      obtain m4 where m4: "pushIfValid s (row, col) (row, col - i) m3 = Inr m4"
        using pushIfValid_own(2)[OF own, of row "col - i" m3] 1(4) row by auto
      from down up row 1(5) have next_i: "1 \<le> i + 1" "i + 1 < 8" by auto
      have "rookLoop s row col (i + 1) m4 = Inl TypeError"
        using 1(1)[OF 1(6) m1 m2 m3 m4 own 1(4) next_i] .
      with 1(6) m1 m2 m3 m4 show ?thesis by (subst rookLoop.simps) simp
    qed
  qed
qed

lemma getAvailableMoves_rook:
  assumes "cellAt (board s) row col = Inr (Some p)" and "type p = Rook"
    and "length (board s) = 8"
  shows "getAvailableMoves s row col =
           (if color p = currentPlayer s then Inl TypeError else Inr [])"
  using assms by (simp add: getAvailableMoves_def rookLoop_own rookLoop_other)


section \<open>Pawn destinations\<close>

text \<open>
  Claim C2, evaluated where the code departs from it. From the start position the white pawn
  on (6,4) gets both diagonal squares (5,3) and (5,5) although they are empty, and the click
  on (5,3) then moves it there. In the position \<open>blockedBoard\<close>, reached from the start by
  clicks, a black pawn stands on (5,4) directly before the same pawn, which still gets the
  double step to (4,4).
\<close>

theorem pawn_moves_diverge:
  "getAvailableMoves initialState 6 4 = Inr [(5, 4), (4, 4), (5, 3), (5, 5)]
   \<and> cellOpt initialBoard 5 3 = None \<and> cellOpt initialBoard 5 5 = None
   \<and> map_sum id moveHistory (clicks initialState [(6, 4), (5, 3)]) = Inr [''6,4 to 5,3'']
   \<and> map_sum id board (clicks initialState blockedClicks) = Inr blockedBoard
   \<and> map_sum id currentPlayer (clicks initialState blockedClicks) = Inr White
   \<and> cellOpt blockedBoard 5 4 = blackPiece Pawn
   \<and> getAvailableMoves (initialState\<lparr>board := blockedBoard\<rparr>) 6 4
       = Inr [(4, 4), (5, 3), (5, 5)]"
proof -
  have "getAvailableMoves initialState 6 4 = Inr [(5, 4), (4, 4), (5, 3), (5, 5)]"
    by code_simp
  moreover have "cellOpt initialBoard 5 3 = None" "cellOpt initialBoard 5 5 = None"
    by code_simp+
  moreover have
    "map_sum id moveHistory (clicks initialState [(6, 4), (5, 3)]) = Inr [''6,4 to 5,3'']"
    by code_simp
  moreover have "map_sum id board (clicks initialState blockedClicks) = Inr blockedBoard"
    by code_simp
  moreover have "map_sum id currentPlayer (clicks initialState blockedClicks) = Inr White"
    by code_simp
  moreover have "cellOpt blockedBoard 5 4 = blackPiece Pawn"
    by code_simp
  moreover have
    "getAvailableMoves (initialState\<lparr>board := blockedBoard\<rparr>) 6 4 = Inr [(4, 4), (5, 3), (5, 5)]"
    by code_simp
  ultimately show ?thesis by simp
qed

section \<open>Rook destinations\<close>

text \<open>
  Claim C3, evaluated where the code departs from it. In the start position the click on the
  white rook on (7,0) ends in a TypeError: the effect calls \<open>getAvailableMoves\<close>, whose first
  test reads \<open>board[8][0]\<close>. In the position \<open>openFileBoard\<close>, reached from the start by
  clicks, the squares (6,0) and (5,0) before that rook are empty; with White to move the
  generator raises TypeError again, and with Black to move it returns no destination.
\<close>

theorem rook_moves_diverge:
  "getAvailableMoves initialState 7 0 = Inl TypeError
   \<and> clicks initialState [(7, 0)] = Inl TypeError
   \<and> map_sum id board (clicks initialState openFileClicks) = Inr openFileBoard
   \<and> map_sum id currentPlayer (clicks initialState openFileClicks) = Inr White
   \<and> cellOpt openFileBoard 7 0 = whitePiece Rook
   \<and> cellOpt openFileBoard 6 0 = None \<and> cellOpt openFileBoard 5 0 = None
   \<and> getAvailableMoves (initialState\<lparr>board := openFileBoard\<rparr>) 7 0 = Inl TypeError
   \<and> getAvailableMoves (initialState\<lparr>board := openFileBoard, currentPlayer := Black\<rparr>) 7 0
       = Inr []"
proof -
  have "getAvailableMoves initialState 7 0 = Inl TypeError"
    by code_simp
  moreover have "clicks initialState [(7, 0)] = Inl TypeError"
    by code_simp
  moreover have "map_sum id board (clicks initialState openFileClicks) = Inr openFileBoard"
    by code_simp
  moreover have "map_sum id currentPlayer (clicks initialState openFileClicks) = Inr White"
    by code_simp
  moreover have "cellOpt openFileBoard 7 0 = whitePiece Rook"
    "cellOpt openFileBoard 6 0 = None" "cellOpt openFileBoard 5 0 = None"
    by code_simp+
  moreover have "getAvailableMoves (initialState\<lparr>board := openFileBoard\<rparr>) 7 0 = Inl TypeError"
    by code_simp
  moreover have
    "getAvailableMoves (initialState\<lparr>board := openFileBoard, currentPlayer := Black\<rparr>) 7 0 = Inr []"
    by code_simp
  ultimately show ?thesis by simp
qed

section \<open>The query depends on the position only\<close>

text \<open>
  Claim C8. On a board of eight ranks the outcome of \<open>getAvailableMoves\<close> for a square (the
  list of destinations, or the exception) is determined by the board and the side to move:
  two states that agree on these give the same outcome, whatever their other variables, the
  highlighted destinations \<open>availableMoves\<close> included.
\<close>

theorem getAvailableMoves_deterministic:
  assumes "board s1 = board s2" and "currentPlayer s1 = currentPlayer s2"
    and "length (board s1) = 8"
  shows "getAvailableMoves s1 row col = getAvailableMoves s2 row col"
proof (cases "cellAt (board s1) row col")
  case (Inl e)
  with assms(1) show ?thesis by (simp add: getAvailableMoves_def)
next
  case (Inr cell)
  show ?thesis
  proof (cases cell)
    case None
    with Inr assms(1) show ?thesis by (simp add: getAvailableMoves_def)
  next
    case (Some p)
    show ?thesis
    proof (cases "type p = Rook")
      case True
      have "getAvailableMoves s1 row col
              = (if color p = currentPlayer s1 then Inl TypeError else Inr [])"
        using getAvailableMoves_rook[of s1 row col p] Inr Some True assms(3) by simp
      moreover have "getAvailableMoves s2 row col
              = (if color p = currentPlayer s2 then Inl TypeError else Inr [])"
        using getAvailableMoves_rook[of s2 row col p] Inr Some True assms(1,3) by simp
      ultimately show ?thesis using assms(2) by simp
    next
      case False
      with Inr Some assms(1) show ?thesis
        by (cases "type p") (simp_all add: getAvailableMoves_def)
    qed
  qed
qed

theorem getAvailableMoves_deterministic_witness:
  "board initialState = board (initialState\<lparr>availableMoves := [(5, 0)], selectedSquare := Some (7, 0)\<rparr>)
   \<and> currentPlayer initialState
       = currentPlayer (initialState\<lparr>availableMoves := [(5, 0)], selectedSquare := Some (7, 0)\<rparr>)
   \<and> length (board initialState) = 8
   \<and> getAvailableMoves initialState 6 0
       = getAvailableMoves (initialState\<lparr>availableMoves := [(5, 0)], selectedSquare := Some (7, 0)\<rparr>) 6 0"
proof -
  have len: "length (board initialState) = 8"
    by (simp add: initialState_def initialBoard_def)
  show ?thesis
    using len
      getAvailableMoves_deterministic[of initialState
        "initialState\<lparr>availableMoves := [(5, 0)], selectedSquare := Some (7, 0)\<rparr>" 6 0]
    by simp
qed

section \<open>Accepted clicks\<close>

lemma isValidMove_True:
  assumes "isValidMove s (fromRow, fromCol) (toRow, toCol) = Inr True"
  shows "colorOf (cellOpt (board s) fromRow fromCol) = Some (currentPlayer s)
         \<and> colorOf (cellOpt (board s) toRow toCol) \<noteq> Some (currentPlayer s)
         \<and> idx (board s) fromRow \<noteq> None \<and> idx (board s) toRow \<noteq> None
         \<and> (toRow, toCol) \<in> set (availableMoves s)"
  using assms
  by (auto simp: isValidMove.simps cellAt_def cellOpt_def colorOf_def list_ex_iff
      split: option.splits if_splits)

lemma handleSquareClick_accepts:
  assumes "handleSquareClick s row col = Inr (s', flag)"
    and "moveHistory s' \<noteq> moveHistory s"
  shows "\<exists>sel. selectedSquare s = Some sel \<and> isValidMove s sel (row, col) = Inr True"
proof (cases "selectedSquare s")
  case None
  with assms show ?thesis
    by (auto simp: handleSquareClick_def split: sum.splits if_splits)
next
  case (Some sel)
  with assms show ?thesis
    by (auto simp: handleSquareClick_def split: sum.splits if_splits)
qed

text \<open>
  Claim C10. For a source square whose row exists on the board, \<open>isValidMove\<close> returns false
  whenever the source is empty, holds a piece of the opponent, or the destination holds a
  piece of the current player. Hence a click that \<open>handleSquareClick\<close> accepts (it extends
  the move history) moves a piece of the current player to a square that holds none of the
  current player's pieces.
\<close>

theorem isValidMove_rejects:
  assumes "idx (board s) fromRow \<noteq> None"
  shows "(cellOpt (board s) fromRow fromCol = None
          \<or> colorOf (cellOpt (board s) fromRow fromCol) = Some (opponent (currentPlayer s))
          \<or> colorOf (cellOpt (board s) toRow toCol) = Some (currentPlayer s)
          \<longrightarrow> isValidMove s (fromRow, fromCol) (toRow, toCol) = Inr False)
       \<and> (selectedSquare s = Some (fromRow, fromCol)
          \<and> handleSquareClick s toRow toCol = Inr (s', flag)
          \<and> moveHistory s' \<noteq> moveHistory s
          \<longrightarrow> colorOf (cellOpt (board s) fromRow fromCol) = Some (currentPlayer s)
              \<and> colorOf (cellOpt (board s) toRow toCol) \<noteq> Some (currentPlayer s))"
proof (rule conjI; rule impI)
  assume bad: "cellOpt (board s) fromRow fromCol = None
          \<or> colorOf (cellOpt (board s) fromRow fromCol) = Some (opponent (currentPlayer s))
          \<or> colorOf (cellOpt (board s) toRow toCol) = Some (currentPlayer s)"
  from assms obtain rw where rw: "idx (board s) fromRow = Some rw" by auto
  show "isValidMove s (fromRow, fromCol) (toRow, toCol) = Inr False"
    using bad rw
    by (auto simp: isValidMove.simps cellAt_def cellOpt_def colorOf_def opponent_def
        split: option.splits if_splits)
next
  assume acc: "selectedSquare s = Some (fromRow, fromCol)
          \<and> handleSquareClick s toRow toCol = Inr (s', flag)
          \<and> moveHistory s' \<noteq> moveHistory s"
  then have "isValidMove s (fromRow, fromCol) (toRow, toCol) = Inr True"
    using handleSquareClick_accepts[of s toRow toCol s' flag] by auto
  then show "colorOf (cellOpt (board s) fromRow fromCol) = Some (currentPlayer s)
              \<and> colorOf (cellOpt (board s) toRow toCol) \<noteq> Some (currentPlayer s)"
    using isValidMove_True by blast
qed


theorem isValidMove_rejects_witness:
  "idx (board clickState) 6 \<noteq> None
   \<and> colorOf (cellOpt (board clickState) 7 4) = Some (currentPlayer clickState)
   \<and> isValidMove clickState (6, 4) (7, 4) = Inr False
   \<and> selectedSquare clickState = Some (6, 4)
   \<and> map_sum id (\<lambda>(s', flag). moveHistory s') (handleSquareClick clickState 4 4)
       = Inr [''6,4 to 4,4'']
   \<and> colorOf (cellOpt (board clickState) 6 4) = Some (currentPlayer clickState)
   \<and> colorOf (cellOpt (board clickState) 4 4) \<noteq> Some (currentPlayer clickState)"
proof -
  have row: "idx (board clickState) 6 \<noteq> None" by code_simp
  have own: "colorOf (cellOpt (board clickState) 7 4) = Some (currentPlayer clickState)"
    by code_simp
  have sel: "selectedSquare clickState = Some (6, 4)" by code_simp
  have hist: "map_sum id (\<lambda>(s', flag). moveHistory s') (handleSquareClick clickState 4 4)
       = Inr [''6,4 to 4,4'']"
    by code_simp
  then obtain s' flag where click: "handleSquareClick clickState 4 4 = Inr (s', flag)"
    and new: "moveHistory s' = [''6,4 to 4,4'']"
    by (cases "handleSquareClick clickState 4 4") auto
  have old: "moveHistory clickState = []" by code_simp
  have rejected: "isValidMove clickState (6, 4) (7, 4) = Inr False"
    using isValidMove_rejects[OF row, of 4 7 4] own by simp
  have accepted: "colorOf (cellOpt (board clickState) 6 4) = Some (currentPlayer clickState)
      \<and> colorOf (cellOpt (board clickState) 4 4) \<noteq> Some (currentPlayer clickState)"
    using isValidMove_rejects[OF row, of 4 4 4 s' flag] sel click new old by simp
  show ?thesis using row own rejected sel hist accepted by simp
qed

section \<open>Reading back what was saved\<close>

lemma asType_typeName: "asType (JString (typeName t)) = Some t"
  by (cases t) (simp_all add: asType_def)

lemma asColor_colorName: "asColor (JString (colorName c)) = Some c"
  by (cases c) (simp_all add: asColor_def)

lemma asCell_cellJson: "asCell (cellJson cell) = Some cell"
proof (cases cell)
  case None
  then show ?thesis by (simp add: asCell_def)
next
  case (Some p)
  have "asCell (pieceJson p) = Some (Some \<lparr>type = type p, color = color p\<rparr>)"
    by (simp add: asCell_def pieceJson_def getProp_def asType_typeName asColor_colorName)
  with Some show ?thesis by simp
qed

lemma allSome_map:
  assumes "\<And>x. x \<in> set xs \<Longrightarrow> read (write x) = Some x"
  shows "allSome (map (\<lambda>x. read (write x)) xs) = Some xs"
  using assms by (induction xs) simp_all

lemma asRow_cells: "asRow (JArray (map cellJson row)) = Some row"
  using allSome_map[of row asCell cellJson]
  by (simp add: asRow_def asCell_cellJson comp_def)

lemma asBoard_boardJson: "asBoard (boardJson b) = Some b"
  using allSome_map[of b asRow "\<lambda>row. JArray (map cellJson row)"]
  by (simp add: asBoard_def boardJson_def asRow_cells comp_def)

lemma asHistory_strings: "asHistory (JArray (map JString h)) = Some h"
  using allSome_map[of h asText JString]
  by (simp add: asHistory_def asText_def comp_def)

lemma loadGame_gameJson:
  assumes "localStorage ''savedChessGame'' = Some (Document (gameJson g))"
  shows "loadGame s localStorage =
           Loads (s\<lparr>board := board g, currentPlayer := currentPlayer g,
                    moveHistory := moveHistory g\<rparr>)"
proof -
  have b: "Option.bind (getProp (gameJson g) ''board'') asBoard = Some (board g)"
    by (simp add: gameJson_def getProp_def asBoard_boardJson)
  have p: "Option.bind (getProp (gameJson g) ''currentPlayer'') asColor = Some (currentPlayer g)"
    by (simp add: gameJson_def getProp_def asColor_colorName)
  have h: "Option.bind (getProp (gameJson g) ''moveHistory'') asHistory = Some (moveHistory g)"
    by (simp add: gameJson_def getProp_def asHistory_strings)
  have "gameJson g \<noteq> JNull" by (simp add: gameJson_def)
  with assms b p h show ?thesis by (simp add: loadGame_def)
qed

lemma loadGame_saveGame:
  "loadGame s (saveGame g localStorage) =
     Loads (s\<lparr>board := board g, currentPlayer := currentPlayer g, moveHistory := moveHistory g\<rparr>)"
proof -
  have "saveGame g localStorage ''savedChessGame'' = Some (Document (gameJson g))"
    by (simp add: saveGame_def)
  then show ?thesis by (rule loadGame_gameJson)
qed

text \<open>
  Claim C6. Saving a game state \<open>g\<close> and then loading, in whatever state \<open>s\<close> the component
  then is, gives a state whose board, side to move and move history are those of \<open>g\<close>; the
  other variables of \<open>s\<close> are kept. Loading in \<open>g\<close> itself gives \<open>g\<close> back.
\<close>

theorem save_load_roundtrip:
  "loadGame s (saveGame g localStorage) =
     Loads (s\<lparr>board := board g, currentPlayer := currentPlayer g, moveHistory := moveHistory g\<rparr>)
   \<and> loadGame g (saveGame g localStorage) = Loads g"
  using loadGame_saveGame[of s g localStorage] loadGame_saveGame[of g g localStorage]
  by simp

section \<open>Loading checks nothing\<close>

text \<open>
  Claim C7 fails as stated: a saved board without a white king is loaded, and replaces the
  board of the current state.
\<close>

theorem loadGame_no_king_counterexample:
  "\<not> oneKingEach noWhiteKingBoard
   \<and> loadGame initialState (saveGame (initialState\<lparr>board := noWhiteKingBoard\<rparr>) Map.empty)
       = Loads (initialState\<lparr>board := noWhiteKingBoard\<rparr>)
   \<and> board (initialState\<lparr>board := noWhiteKingBoard\<rparr>) \<noteq> board initialState"
proof -
  have "\<not> oneKingEach noWhiteKingBoard" by code_simp
  moreover have "loadGame initialState (saveGame (initialState\<lparr>board := noWhiteKingBoard\<rparr>) Map.empty)
       = Loads (initialState\<lparr>board := noWhiteKingBoard\<rparr>)"
    using loadGame_saveGame[of initialState "initialState\<lparr>board := noWhiteKingBoard\<rparr>" Map.empty]
    by simp
  moreover have "board (initialState\<lparr>board := noWhiteKingBoard\<rparr>) \<noteq> board initialState"
    by code_simp
  ultimately show ?thesis by simp
qed

text \<open>
  Claim C7, amended. \<open>loadGame\<close> accepts every saved game, whatever kings its board holds:
  when the item holds the saved form of a game \<open>g\<close>, loading raises nothing and replaces the
  board, the side to move and the move history of the current state by those of \<open>g\<close>. The
  current state is kept only when there is nothing to load.
\<close>

theorem loadGame_accepts_any_board:
  "(localStorage ''savedChessGame'' = Some (Document (gameJson g)) \<longrightarrow>
      loadGame s localStorage =
        Loads (s\<lparr>board := board g, currentPlayer := currentPlayer g,
                 moveHistory := moveHistory g\<rparr>))
   \<and> (localStorage ''savedChessGame'' = None \<longrightarrow> loadGame s localStorage = Loads s)"
  using loadGame_gameJson[of localStorage g s] by (simp add: loadGame_def)

theorem loadGame_accepts_any_board_witness:
  "[''savedChessGame'' \<mapsto> Document (gameJson (initialState\<lparr>board := kingsBoard[7 := replicate 8 None]\<rparr>))]
      ''savedChessGame''
     = Some (Document (gameJson (initialState\<lparr>board := kingsBoard[7 := replicate 8 None]\<rparr>)))
   \<and> loadGame clickState
        [''savedChessGame'' \<mapsto> Document (gameJson (initialState\<lparr>board := kingsBoard[7 := replicate 8 None]\<rparr>))]
     = Loads (clickState\<lparr>board := kingsBoard[7 := replicate 8 None]\<rparr>)
   \<and> kingCount (kingsBoard[7 := replicate 8 None]) White = 0
   \<and> (Map.empty :: Storage) ''savedChessGame'' = None
   \<and> loadGame clickState Map.empty = Loads clickState"
proof -
  let ?g = "initialState\<lparr>board := kingsBoard[7 := replicate 8 None]\<rparr>"
  let ?ls = "[''savedChessGame'' \<mapsto> Document (gameJson ?g)]"
  have stored: "?ls ''savedChessGame'' = Some (Document (gameJson ?g))" by simp
  have same: "currentPlayer ?g = currentPlayer clickState" "moveHistory ?g = moveHistory clickState"
    by code_simp+
  have loaded: "loadGame clickState ?ls = Loads (clickState\<lparr>board := kingsBoard[7 := replicate 8 None]\<rparr>)"
    using loadGame_accepts_any_board[of ?ls ?g clickState] stored same by simp
  have kings: "kingCount (kingsBoard[7 := replicate 8 None]) White = 0" by code_simp
  have none: "loadGame clickState Map.empty = Loads clickState"
    using loadGame_accepts_any_board[of Map.empty ?g clickState] by simp
  show ?thesis using stored loaded kings none by simp
qed

section \<open>What a move changes on the board\<close>

lemma idx_Some_iff: "idx xs i = Some x \<longleftrightarrow> 0 \<le> i \<and> i < int (length xs) \<and> xs ! nat i = x"
  by (auto simp: idx_def)

lemma idx_None_iff: "idx xs i = None \<longleftrightarrow> \<not> (0 \<le> i \<and> i < int (length xs))"
  by (auto simp: idx_def)

lemma idx_list_update:
  "idx (xs[n := x]) i = (if i = int n \<and> n < length xs then Some x else idx xs i)"
  by (auto simp: idx_def nat_eq_iff)

lemma rowCell_setIdx:
  "rowCell (setIdx xs i v) j = (if j = i \<and> 0 \<le> i then v else rowCell xs j)"
proof (cases "i < 0")
  case True
  then show ?thesis by (auto simp: setIdx_def)
next
  case nonneg: False
  show ?thesis
  proof (cases "i < int (length xs)")
    case True
    with nonneg show ?thesis
      by (auto simp: setIdx_def rowCell_def idx_def nat_eq_iff)
  next
    case False
    with nonneg show ?thesis
      by (auto simp: setIdx_def rowCell_def idx_def nth_append nat_eq_iff)
  qed
qed

lemma rowCell_negative: "j < 0 \<Longrightarrow> rowCell xs j = None"
  by (simp add: rowCell_def idx_def)

lemma movePiece_succeeds:
  assumes "idx b fromRow \<noteq> None" and "idx b toRow \<noteq> None"
  shows "\<exists>b'. movePiece b (fromRow, fromCol) (toRow, toCol) = Inr b'"
proof -
  from assms obtain source target
    where src: "idx b fromRow = Some source" and tgt: "idx b toRow = Some target"
    by auto
  then show ?thesis
    by (auto simp: movePiece.simps cellAt_def Let_def idx_list_update idx_Some_iff idx_None_iff
        split: option.splits)
qed

lemma cellOpt_movePiece:
  assumes "movePiece b (fromRow, fromCol) (toRow, toCol) = Inr b'"
  shows "cellOpt b' x y =
           (if x = fromRow \<and> y = fromCol then None
            else if x = toRow \<and> y = toCol \<and> 0 \<le> toCol then cellOpt b fromRow fromCol
            else cellOpt b x y)"
proof -
  from assms obtain target where tgt: "idx b toRow = Some target"
    by (auto simp: movePiece.simps Let_def split: option.splits)
  from assms tgt obtain source0 where src0: "idx b fromRow = Some source0"
    by (auto simp: movePiece.simps cellAt_def Let_def split: option.splits)
  define v where "v = rowCell source0 fromCol"
  define moved where "moved = b[nat toRow := setIdx target toCol v]"
  from tgt have toRow: "0 \<le> toRow" "nat toRow < length b" "b ! nat toRow = target"
    by (auto simp: idx_Some_iff)
  from src0 have fromRow: "0 \<le> fromRow" "nat fromRow < length b" "b ! nat fromRow = source0"
    by (auto simp: idx_Some_iff)
  define source where "source = moved ! nat fromRow"
  have src: "idx moved fromRow = Some source"
    using fromRow by (simp add: idx_Some_iff moved_def source_def)
  have b': "b' = moved[nat fromRow := setIdx source fromCol None]"
    using assms tgt src0 src
    by (simp add: movePiece.simps cellAt_def Let_def v_def moved_def)
  have moved_cell: "cellOpt moved x y =
      (if x = toRow \<and> y = toCol \<and> 0 \<le> toCol then v else cellOpt b x y)" for x y
    using toRow
    by (auto simp: cellOpt_def moved_def idx_list_update rowCell_setIdx idx_Some_iff
        idx_None_iff split: option.splits)
  have source_cell: "rowCell source y = cellOpt moved fromRow y" for y
    using src by (simp add: cellOpt_def)
  have "cellOpt b' x y = (if x = fromRow \<and> y = fromCol then None else cellOpt moved x y)"
  proof (cases "x = fromRow")
    case True
    have "cellOpt b' x y = rowCell (setIdx source fromCol None) y"
      using True fromRow by (simp add: b' cellOpt_def idx_list_update moved_def)
    also have "\<dots> = (if y = fromCol then None else rowCell source y)"
      by (cases "0 \<le> fromCol") (auto simp: rowCell_setIdx rowCell_negative)
    finally show ?thesis using True source_cell by simp
  next
    case False
    then have "idx b' x = idx moved x"
      using fromRow by (auto simp: b' idx_list_update)
    with False show ?thesis by (simp add: cellOpt_def)
  qed
  moreover have "v = cellOpt b fromRow fromCol"
    using src0 by (simp add: v_def cellOpt_def)
  ultimately show ?thesis using moved_cell by simp
qed

section \<open>No test for check\<close>

lemma pawnMoves_not_friendly:
  assumes "(r, c) \<in> set (pawnMoves b p row col)"
  shows "colorOf (cellOpt b r c) \<noteq> Some (color p)"
  using assms by (auto simp: pawnMoves_def Let_def colorOf_def split: if_splits)

lemma getAvailableMoves_nonempty:
  assumes "getAvailableMoves s row col = Inr ms" and "(r, c) \<in> set ms"
    and "length (board s) = 8"
  shows "\<exists>p. cellAt (board s) row col = Inr (Some p) \<and> type p = Pawn
             \<and> (r, c) \<in> set (pawnMoves (board s) p row col) \<and> onBoard (r, c)"
proof (cases "cellAt (board s) row col")
  case (Inl e)
  with assms(1) show ?thesis by (simp add: getAvailableMoves_def)
next
  case (Inr cell)
  show ?thesis
  proof (cases cell)
    case None
    with Inr assms(1,2) show ?thesis by (auto simp: getAvailableMoves_def)
  next
    case (Some p)
    show ?thesis
    proof (cases "type p = Rook")
      case True
      then have "getAvailableMoves s row col
                   = (if color p = currentPlayer s then Inl TypeError else Inr [])"
        using getAvailableMoves_rook[of s row col p] Inr Some assms(3) by simp
      with assms(1,2) show ?thesis by (auto split: if_splits)
    next
      case False
      with Inr Some assms(1,2) show ?thesis
        by (cases "type p") (auto simp: getAvailableMoves_def)
    qed
  qed
qed

text \<open>
  Claim C1 fails as stated, with the attack test of the specification over the moves the code
  generates. White is to move and the white king on (4,1) is attacked by the black pawn on
  (3,0). The step of the white pawn from (6,7) to (5,7) is among the generated moves, the
  click on (5,7) is accepted, and in the resulting state the white king is still attacked.
\<close>

theorem king_left_attacked_counterexample:
  "getAvailableMoves checkState 6 7 = Inr [(5, 7), (4, 7), (5, 6)]
   \<and> handleSquareClick checkState 5 7 = Inr (checkStateAfter, False)
   \<and> cellOpt (board checkStateAfter) 4 1 = whitePiece King
   \<and> isSquareAttacked checkStateAfter (4, 1) Black"
proof -
  have "getAvailableMoves checkState 6 7 = Inr [(5, 7), (4, 7), (5, 6)]"
    by code_simp
  moreover have "handleSquareClick checkState 5 7 = Inr (checkStateAfter, False)"
    by code_simp
  moreover have "cellOpt (board checkStateAfter) 4 1 = whitePiece King"
    by code_simp
  moreover have "isSquareAttacked checkStateAfter (4, 1) Black"
    by code_simp
  ultimately show ?thesis by simp
qed

text \<open>
  Claim C1, amended. On a board of eight ranks, every destination that \<open>getAvailableMoves\<close>
  returns for a piece holds no piece of that piece's colour; applying the move succeeds, and
  every king of the mover's colour stands on its square afterwards. Whether that king is then
  attacked is not examined.
\<close>

theorem available_move_keeps_king:
  assumes "length (board s) = 8"
    and "getAvailableMoves s row col = Inr ms" and "(r, c) \<in> set ms"
    and "cellOpt (board s) row col = Some p"
  shows "colorOf (cellOpt (board s) r c) \<noteq> Some (color p)
         \<and> (\<exists>b'. movePiece (board s) (row, col) (r, c) = Inr b'
                \<and> (\<forall>kr kc. cellOpt (board s) kr kc = Some \<lparr>type = King, color = color p\<rparr>
                       \<longrightarrow> cellOpt b' kr kc = Some \<lparr>type = King, color = color p\<rparr>))"
proof -
  from getAvailableMoves_nonempty[OF assms(2,3,1)] obtain q
    where q: "cellAt (board s) row col = Inr (Some q)" "type q = Pawn"
      "(r, c) \<in> set (pawnMoves (board s) q row col)" "onBoard (r, c)"
    by blast
  from q(1) assms(4) have "q = p" by (simp add: cellAt_cellOpt)
  with q have pawn: "type p = Pawn" and gen: "(r, c) \<in> set (pawnMoves (board s) p row col)"
    by simp_all
  have free: "colorOf (cellOpt (board s) r c) \<noteq> Some (color p)"
    using gen by (rule pawnMoves_not_friendly)
  have "idx (board s) row \<noteq> None"
    using q(1) by (auto simp: cellAt_def split: option.splits)
  moreover have "idx (board s) r \<noteq> None"
    using q(4) assms(1) by (simp add: onBoard_def idx_None_iff)
  ultimately obtain b' where b': "movePiece (board s) (row, col) (r, c) = Inr b'"
    using movePiece_succeeds by blast
  have "cellOpt b' kr kc = Some \<lparr>type = King, color = color p\<rparr>"
    if king: "cellOpt (board s) kr kc = Some \<lparr>type = King, color = color p\<rparr>" for kr kc
  proof -
    have "\<not> (kr = row \<and> kc = col)"
    proof
      assume "kr = row \<and> kc = col"
      with king assms(4) have "type p = type \<lparr>type = King, color = color p\<rparr>" by simp
      with pawn show False by simp
    qed
    moreover have "\<not> (kr = r \<and> kc = c)"
      using king free by (auto simp: colorOf_def)
    ultimately show ?thesis
      using cellOpt_movePiece[OF b', of kr kc] king by auto
  qed
  with free b' show ?thesis by blast
qed

theorem available_move_keeps_king_witness:
  "length (board checkState) = 8
   \<and> getAvailableMoves checkState 6 7 = Inr [(5, 7), (4, 7), (5, 6)]
   \<and> (5, 7) \<in> set [(5, 7), (4, 7), (5, 6 :: int)]
   \<and> cellOpt (board checkState) 6 7 = Some \<lparr>type = Pawn, color = White\<rparr>
   \<and> colorOf (cellOpt (board checkState) 5 7) \<noteq> Some White
   \<and> movePiece (board checkState) (6, 7) (5, 7) = Inr checkBoardAfter
   \<and> cellOpt (board checkState) 4 1 = Some \<lparr>type = King, color = White\<rparr>
   \<and> cellOpt checkBoardAfter 4 1 = Some \<lparr>type = King, color = White\<rparr>"
proof -
  have len: "length (board checkState) = 8" by code_simp
  have gen: "getAvailableMoves checkState 6 7 = Inr [(5, 7), (4, 7), (5, 6)]" by code_simp
  have mem: "(5, 7) \<in> set [(5, 7), (4, 7), (5, 6 :: int)]" by simp
  have pawn: "cellOpt (board checkState) 6 7 = Some \<lparr>type = Pawn, color = White\<rparr>"
    by code_simp
  have moved: "movePiece (board checkState) (6, 7) (5, 7) = Inr checkBoardAfter"
    by code_simp
  have king: "cellOpt (board checkState) 4 1 = Some \<lparr>type = King, color = White\<rparr>"
    by code_simp
  from available_move_keeps_king[OF len gen mem pawn] moved king
  have "colorOf (cellOpt (board checkState) 5 7) \<noteq> Some White
        \<and> cellOpt checkBoardAfter 4 1 = Some \<lparr>type = King, color = White\<rparr>"
    by auto
  with len gen mem pawn moved king show ?thesis by simp
qed

section \<open>The candidates of the computer\<close>









section \<open>The computer's choice\<close>





section \<open>Copies in the store\<close>

lemma rowsOf_append:
  assumes "allocated st refs"
  shows "rowsOf (st @ extra) refs = rowsOf st refs"
  using assms by (simp add: rowsOf_def allocated_def list_all_iff nth_append)

lemma copyRows_result:
  assumes "allocated st b"
  shows "copyRows st b = (st @ rowsOf st b, map (\<lambda>k. length st + k) [0..<length b])"
  using assms
proof (induction b arbitrary: st)
  case Nil
  then show ?case by (simp add: rowsOf_def)
next
  case (Cons a as)
  let ?st1 = "st @ [st ! a]"
  from Cons.prems have a: "a < length st" and rest: "allocated st as"
    by (simp_all add: allocated_def)
  from rest have "allocated ?st1 as"
    by (auto simp: allocated_def list_all_iff)
  then have "copyRows ?st1 as
               = (?st1 @ rowsOf ?st1 as, map (\<lambda>k. length ?st1 + k) [0..<length as])"
    by (rule Cons.IH)
  moreover have "rowsOf ?st1 as = rowsOf st as"
    using rest by (rule rowsOf_append)
  moreover have "map (\<lambda>k. length st + k) [0..<length (a # as)]
                   = length st # map (\<lambda>k. length ?st1 + k) [0..<length as]"
    by (simp add: upt_conv_Cons map_Suc_upt[symmetric] del: upt_Suc)
  ultimately show ?case by (simp add: rowsOf_def)
qed

lemma idx_fresh_refs:
  "idx (map (\<lambda>k. n + k) [0..<m]) i
     = (if 0 \<le> i \<and> i < int m then Some (n + nat i) else None)"
  by (auto simp: idx_def)

lemma idx_rowsOf:
  "idx (rowsOf st b) i = (if 0 \<le> i \<and> i < int (length b) then Some (st ! (b ! nat i)) else None)"
  by (auto simp: idx_def rowsOf_def)

lemma rowsOf_fresh: "rowsOf (st @ rows) (map (\<lambda>k. length st + k) [0..<length rows]) = rows"
proof -
  have "map (\<lambda>a. (st @ rows) ! a) (map (\<lambda>k. length st + k) [0..<length rows])
          = map (\<lambda>k. rows ! k) [0..<length rows]"
    by (simp add: comp_def)
  then show ?thesis by (simp add: rowsOf_def map_nth)
qed

text \<open>The store model computes what the value model computes.\<close>

lemma movePieceRefs_refines:
  assumes "allocated st b"
  shows "map_sum id (\<lambda>(st', nb). rowsOf st' nb) (movePieceRefs st b (fromRow, fromCol) (toRow, toCol))
           = movePiece (rowsOf st b) (fromRow, fromCol) (toRow, toCol)"
proof -
  let ?B = "rowsOf st b"
  let ?n = "length st"
  have len: "length ?B = length b" by (simp add: rowsOf_def)
  note copy = copyRows_result[OF assms]
  show ?thesis
  proof (cases "0 \<le> toRow \<and> toRow < int (length b)")
    case False
    then show ?thesis
      by (auto simp: movePieceRefs.simps movePiece.simps copy idx_fresh_refs idx_def len)
  next
    case to_ok: True
    show ?thesis
    proof (cases "0 \<le> fromRow \<and> fromRow < int (length b)")
      case False
      with to_ok show ?thesis
        by (auto simp: movePieceRefs.simps movePiece.simps copy idx_fresh_refs idx_def len
            cellAt_def)
    next
      case from_ok: True
      define t where "t = nat toRow"
      define f where "f = nat fromRow"
      from to_ok from_ok have t: "t < length ?B" and f: "f < length ?B"
        by (auto simp: t_def f_def len)
      define v where "v = rowCell (?B ! f) fromCol"
      define moved where "moved = ?B[t := setIdx (?B ! t) toCol v]"
      define final where "final = moved[f := setIdx (moved ! f) fromCol None]"
      have on_values: "movePiece ?B (fromRow, fromCol) (toRow, toCol) = Inr final"
        using to_ok from_ok t f
        by (simp add: movePiece.simps cellAt_def idx_def len Let_def final_def moved_def v_def
            t_def f_def)
      have st2: "(st @ ?B)[?n + t := setIdx ((st @ ?B) ! (?n + t)) toCol v] = st @ moved"
        by (simp add: list_update_append moved_def)
      have st3: "(st @ moved)[?n + f := setIdx ((st @ moved) ! (?n + f)) fromCol None]
                   = st @ final"
        by (simp add: list_update_append final_def)
      have "movePieceRefs st b (fromRow, fromCol) (toRow, toCol)
              = Inr (st @ final, map (\<lambda>k. ?n + k) [0..<length b])"
        using to_ok from_ok st2 st3
        by (simp add: movePieceRefs.simps copy idx_fresh_refs Let_def v_def t_def f_def)
      moreover have "length final = length b"
        by (simp add: final_def moved_def len)
      ultimately show ?thesis
        using rowsOf_fresh[of st final] by (simp add: on_values)
    qed
  qed
qed

lemma movePieceRefs_frame:
  assumes "allocated st b"
    and "movePieceRefs st b (fromRow, fromCol) (toRow, toCol) = Inr (st', nb)"
  shows "take (length st) st' = st"
    and "nb = map (\<lambda>k. length st + k) [0..<length b]"
    and "length st' = length st + length b"
proof -
  note copy = copyRows_result[OF assms(1)]
  from assms(2) obtain target source
    where tgt: "idx (map (\<lambda>k. length st + k) [0..<length b]) toRow = Some target"
      and src: "idx (map (\<lambda>k. length st + k) [0..<length b]) fromRow = Some source"
    by (auto simp: movePieceRefs.simps copy split: option.splits)
  then have fresh: "length st \<le> target" "length st \<le> source"
    by (auto simp: idx_fresh_refs split: if_splits)
  from assms(2) tgt src obtain x y
    where st': "st' = (st @ rowsOf st b)[target := x, source := y]"
      and nb: "nb = map (\<lambda>k. length st + k) [0..<length b]"
    by (auto simp: movePieceRefs.simps copy Let_def)
  show "nb = map (\<lambda>k. length st + k) [0..<length b]" by (rule nb)
  show "take (length st) st' = st"
    using fresh by (simp add: st' take_update_cancel)
  show "length st' = length st + length b"
    by (simp add: st' rowsOf_def)
qed

section \<open>The handlers on the store\<close>

lemma board_valueOf: "board (valueOf rs) = rowsOf (store rs) (boardRefs rs)"
  by (simp add: valueOf_def)

lemma handleSquareClickRefs_refines:
  assumes "allocated (store rs) (boardRefs rs)"
  shows "map_sum id (\<lambda>(rs', flag). (valueOf rs', flag)) (handleSquareClickRefs rs row col)
           = handleSquareClick (valueOf rs) row col"
proof (cases "selectedSquare (valueOf rs)")
  case None
  then show ?thesis
    by (auto simp: handleSquareClickRefs_def handleSquareClick_def Let_def valueOf_def
        split: sum.splits)
next
  case (Some sel)
  obtain fromRow fromCol where sel: "sel = (fromRow, fromCol)" by (cases sel)
  note moved = movePieceRefs_refines[OF assms, of fromRow fromCol row col]
  show ?thesis
  proof (cases "isValidMove (valueOf rs) sel (row, col)")
    case (Inl e)
    with Some show ?thesis
      by (simp add: handleSquareClickRefs_def handleSquareClick_def Let_def)
  next
    case (Inr ok)
    show ?thesis
    proof (cases ok)
      case False
      with Some Inr show ?thesis
        by (simp add: handleSquareClickRefs_def handleSquareClick_def Let_def valueOf_def)
    next
      case True
      show ?thesis
      proof (cases "movePieceRefs (store rs) (boardRefs rs) sel (row, col)")
        case (Inl e)
        with moved have "movePiece (board (valueOf rs)) sel (row, col) = Inl e"
          by (simp add: sel board_valueOf)
        with Some Inr True Inl show ?thesis
          by (simp add: handleSquareClickRefs_def handleSquareClick_def Let_def)
      next
        case inr: (Inr res)
        obtain st' nb where res: "res = (st', nb)" by (cases res)
        with moved inr have "movePiece (board (valueOf rs)) sel (row, col) = Inr (rowsOf st' nb)"
          by (simp add: sel board_valueOf)
        with Some Inr True inr res show ?thesis
          by (simp add: handleSquareClickRefs_def handleSquareClick_def Let_def valueOf_def)
      qed
    qed
  qed
qed

lemma makeComputerMoveRefs_refines:
  assumes "allocated (store rs) (boardRefs rs)"
  shows "map_sum id valueOf (makeComputerMoveRefs rs floorRandom)
           = makeComputerMove (valueOf rs) floorRandom"
proof (cases "rowLoop (valueOf rs) 0 []")
  case (Inl e)
  then show ?thesis by (simp add: makeComputerMoveRefs_def makeComputerMove_def Let_def)
next
  case (Inr pm)
  show ?thesis
  proof (cases "pm = []")
    case True
    with Inr show ?thesis by (simp add: makeComputerMoveRefs_def makeComputerMove_def Let_def)
  next
    case False
    show ?thesis
    proof (cases "idx pm (floorRandom (length pm))")
      case None
      with Inr False show ?thesis
        by (simp add: makeComputerMoveRefs_def makeComputerMove_def Let_def)
    next
      case (Some entry)
      obtain fromRow fromCol toRow toCol where entry: "entry = (fromRow, fromCol, toRow, toCol)"
        by (cases entry)
      note moved = movePieceRefs_refines[OF assms, of fromRow fromCol toRow toCol]
      show ?thesis
      proof (cases "movePieceRefs (store rs) (boardRefs rs) (fromRow, fromCol) (toRow, toCol)")
        case (Inl e)
        with moved
        have "movePiece (board (valueOf rs)) (fromRow, fromCol) (toRow, toCol) = Inl e"
          by (simp add: board_valueOf)
        with Inr False Some entry Inl show ?thesis
          by (simp add: makeComputerMoveRefs_def makeComputerMove_def Let_def)
      next
        case inr: (Inr res)
        obtain st' nb where res: "res = (st', nb)" by (cases res)
        with moved inr
        have "movePiece (board (valueOf rs)) (fromRow, fromCol) (toRow, toCol)
                = Inr (rowsOf st' nb)"
          by (simp add: board_valueOf)
        with Inr False Some entry inr res show ?thesis
          by (simp add: makeComputerMoveRefs_def makeComputerMove_def Let_def valueOf_def)
      qed
    qed
  qed
qed

lemma frame_after_move:
  assumes "allocated st b"
    and "movePieceRefs st b (fromRow, fromCol) (toRow, toCol) = Inr (st', nb)"
  shows "rowsOf st' b = rowsOf st b \<and> take (length st) st' = st
         \<and> list_all (\<lambda>a. length st \<le> a) nb"
proof -
  note frame = movePieceRefs_frame[OF assms]
  have "rowsOf st' b = rowsOf (take (length st) st') b"
    using assms(1) frame(3)
    by (simp add: rowsOf_def allocated_def list_all_iff)
  with frame(1) have "rowsOf st' b = rowsOf st b" by simp
  moreover have "list_all (\<lambda>a. length st \<le> a) nb"
    by (simp add: frame(2) list_all_iff)
  ultimately show ?thesis using frame(1) by simp
qed

text \<open>
  Claim C4. With the rows of the board held by reference, neither \<open>handleSquareClick\<close> nor
  \<open>makeComputerMove\<close> changes an array that existed before the call: the store keeps every
  earlier array as it was, so the board held before the call has the same value after it.
  The board the handler sets is either the one it found (no move was made) or consists of
  arrays allocated by the call.
\<close>

theorem prior_board_unchanged:
  assumes "allocated (store rs) (boardRefs rs)"
  shows "(handleSquareClickRefs rs row col = Inr (rs', flag) \<longrightarrow>
            rowsOf (store rs') (boardRefs rs) = rowsOf (store rs) (boardRefs rs)
            \<and> take (length (store rs)) (store rs') = store rs
            \<and> (boardRefs rs' = boardRefs rs
               \<or> list_all (\<lambda>a. length (store rs) \<le> a) (boardRefs rs')))
       \<and> (makeComputerMoveRefs rs floorRandom = Inr rs'' \<longrightarrow>
            rowsOf (store rs'') (boardRefs rs) = rowsOf (store rs) (boardRefs rs)
            \<and> take (length (store rs)) (store rs'') = store rs
            \<and> (boardRefs rs'' = boardRefs rs
               \<or> list_all (\<lambda>a. length (store rs) \<le> a) (boardRefs rs'')))"
proof (rule conjI; rule impI)
  assume click: "handleSquareClickRefs rs row col = Inr (rs', flag)"
  show "rowsOf (store rs') (boardRefs rs) = rowsOf (store rs) (boardRefs rs)
            \<and> take (length (store rs)) (store rs') = store rs
            \<and> (boardRefs rs' = boardRefs rs
               \<or> list_all (\<lambda>a. length (store rs) \<le> a) (boardRefs rs'))"
  proof (cases "\<exists>sel. selectedSquare (valueOf rs) = Some sel
                  \<and> isValidMove (valueOf rs) sel (row, col) = Inr True")
    case False
    with click have "store rs' = store rs \<and> boardRefs rs' = boardRefs rs"
      by (auto simp: handleSquareClickRefs_def Let_def split: option.splits sum.splits if_splits)
    then show ?thesis by simp
  next
    case True
    then obtain fromRow fromCol
      where "selectedSquare (valueOf rs) = Some (fromRow, fromCol)"
        and "isValidMove (valueOf rs) (fromRow, fromCol) (row, col) = Inr True"
      by auto
    with click have
      "movePieceRefs (store rs) (boardRefs rs) (fromRow, fromCol) (row, col)
         = Inr (store rs', boardRefs rs')"
      by (auto simp: handleSquareClickRefs_def Let_def split: sum.splits)
    from frame_after_move[OF assms this] show ?thesis by simp
  qed
next
  assume move: "makeComputerMoveRefs rs floorRandom = Inr rs''"
  show "rowsOf (store rs'') (boardRefs rs) = rowsOf (store rs) (boardRefs rs)
            \<and> take (length (store rs)) (store rs'') = store rs
            \<and> (boardRefs rs'' = boardRefs rs
               \<or> list_all (\<lambda>a. length (store rs) \<le> a) (boardRefs rs''))"
  proof (cases "rs'' = rs")
    case True
    then show ?thesis by simp
  next
    case False
    with move obtain fromRow fromCol toRow toCol where
      "movePieceRefs (store rs) (boardRefs rs) (fromRow, fromCol) (toRow, toCol)
         = Inr (store rs'', boardRefs rs'')"
      by (auto simp: makeComputerMoveRefs_def Let_def split: option.splits sum.splits if_splits)
    from frame_after_move[OF assms this] show ?thesis by simp
  qed
qed

theorem prior_board_unchanged_witness:
  "allocated (store clickRefState) (boardRefs clickRefState)
   \<and> boardRefs clickRefState = [0, 1, 2, 2, 2, 2, 3, 4]
   \<and> map_sum id (\<lambda>(rs', flag). boardRefs rs') (handleSquareClickRefs clickRefState 4 4)
       = Inr [5, 6, 7, 8, 9, 10, 11, 12]
   \<and> map_sum id (\<lambda>(rs', flag). rowsOf (store rs') (boardRefs clickRefState))
         (handleSquareClickRefs clickRefState 4 4)
       = Inr initialBoard
   \<and> map_sum id boardRefs (makeComputerMoveRefs clickRefState middleIndex)
       = Inr [5, 6, 7, 8, 9, 10, 11, 12]
   \<and> map_sum id (\<lambda>rs'. rowsOf (store rs') (boardRefs clickRefState))
         (makeComputerMoveRefs clickRefState middleIndex)
       = Inr initialBoard"
proof -
  have alloc: "allocated (store clickRefState) (boardRefs clickRefState)" by code_simp
  have refs: "boardRefs clickRefState = [0, 1, 2, 2, 2, 2, 3, 4]" by code_simp
  have before: "rowsOf (store clickRefState) (boardRefs clickRefState) = initialBoard"
    by code_simp
  have click: "map_sum id (\<lambda>(rs', flag). boardRefs rs') (handleSquareClickRefs clickRefState 4 4)
       = Inr [5, 6, 7, 8, 9, 10, 11, 12]"
    by code_simp
  then obtain rs' flag where clicked: "handleSquareClickRefs clickRefState 4 4 = Inr (rs', flag)"
    by (cases "handleSquareClickRefs clickRefState 4 4") auto
  define pm :: "FullMove list" where "pm =
     [(1, 0, 2, 0), (1, 0, 3, 0), (1, 0, 2, 1),
      (1, 1, 2, 1), (1, 1, 3, 1), (1, 1, 2, 0), (1, 1, 2, 2),
      (1, 2, 2, 2), (1, 2, 3, 2), (1, 2, 2, 1), (1, 2, 2, 3),
      (1, 3, 2, 3), (1, 3, 3, 3), (1, 3, 2, 2), (1, 3, 2, 4),
      (1, 4, 2, 4), (1, 4, 3, 4), (1, 4, 2, 3), (1, 4, 2, 5),
      (1, 5, 2, 5), (1, 5, 3, 5), (1, 5, 2, 4), (1, 5, 2, 6),
      (1, 6, 2, 6), (1, 6, 3, 6), (1, 6, 2, 5), (1, 6, 2, 7),
      (1, 7, 2, 7), (1, 7, 3, 7), (1, 7, 2, 6)]"
  have cands: "rowLoop (valueOf clickRefState) 0 [] = Inr pm"
    unfolding pm_def by code_simp
  have len: "length pm = 30" and entry: "pm ! 15 = (1, 4, 2, 4)"
    by (simp_all add: pm_def)
  have pick: "middleIndex 30 = 15" by (simp add: middleIndex_def)
  have moved: "map_sum id snd (movePieceRefs (store clickRefState) (boardRefs clickRefState) (1, 4) (2, 4))
      = Inr [5, 6, 7, 8, 9, 10, 11, 12]"
    by code_simp
  then obtain st' where "movePieceRefs (store clickRefState) (boardRefs clickRefState) (1, 4) (2, 4)
      = Inr (st', [5, 6, 7, 8, 9, 10, 11, 12])"
    by (cases "movePieceRefs (store clickRefState) (boardRefs clickRefState) (1, 4) (2, 4)") auto
  then have move: "map_sum id boardRefs (makeComputerMoveRefs clickRefState middleIndex)
       = Inr [5, 6, 7, 8, 9, 10, 11, 12]"
    by (simp add: makeComputerMoveRefs_def Let_def cands len entry pick idx_def)
  then obtain rs'' where computed: "makeComputerMoveRefs clickRefState middleIndex = Inr rs''"
    by (cases "makeComputerMoveRefs clickRefState middleIndex") auto
  note frame = prior_board_unchanged[OF alloc, of 4 4 rs' flag middleIndex rs'']
  have "rowsOf (store rs') (boardRefs clickRefState) = initialBoard"
    using frame clicked before by simp
  moreover have "rowsOf (store rs'') (boardRefs clickRefState) = initialBoard"
    using frame computed before by simp
  ultimately show ?thesis
    using alloc refs click move clicked computed by simp
qed

end
